theory Spec2Isabelle
  imports Main
begin

section \<open>Strings and paths\<close>

text \<open>
  Python strings are modelled as \<open>string\<close> (lists of characters).  The helpers below are
  the few string operations the project classes use: the substring test \<open>a in b\<close>,
  \<open>str.join\<close>, \<open>str.replace\<close> and \<open>str.lower\<close> (on ASCII letters).
\<close>

fun starts_with :: "string \<Rightarrow> string \<Rightarrow> bool" where
  "starts_with [] s = True"
| "starts_with (p # ps) [] = False"
| "starts_with (p # ps) (c # cs) = (p = c \<and> starts_with ps cs)"

text \<open>\<open>str_in a b\<close> is Python's \<open>a in b\<close> on strings.\<close>

fun str_in :: "string \<Rightarrow> string \<Rightarrow> bool" where
  "str_in a [] = (a = [])"
| "str_in a (c # cs) = (starts_with a (c # cs) \<or> str_in a cs)"

text \<open>\<open>join sep xs\<close> is Python's \<open>sep.join(xs)\<close>.\<close>

fun join :: "string \<Rightarrow> string list \<Rightarrow> string" where
  "join sep [] = []"
| "join sep [x] = x"
| "join sep (x # y # ys) = x @ sep @ join sep (y # ys)"



definition char_lower :: "char \<Rightarrow> char" where
  "char_lower c =
     (case map_of (zip ''ABCDEFGHIJKLMNOPQRSTUVWXYZ'' ''abcdefghijklmnopqrstuvwxyz'') c of
        None \<Rightarrow> c | Some l \<Rightarrow> l)"

definition lower :: "string \<Rightarrow> string" where
  "lower s = map char_lower s"

text \<open>
  A \<open>pathlib.Path\<close> is a flag for the leading slash and the list of its components.
  \<open>segs\<close> splits a string at slashes and drops the empty and the \<open>.\<close> components, as
  pathlib does.  \<open>pjoin p s\<close> is \<open>p / s\<close> for a string \<open>s\<close> (an absolute right operand
  replaces the left one) and \<open>pjoinP\<close> the same for a path on the right.
\<close>

datatype Path = Path (is_abs: bool) (parts: "string list")

fun split_on :: "char \<Rightarrow> string \<Rightarrow> string list" where
  "split_on d [] = [[]]"
| "split_on d (c # cs) =
     (if c = d then [] # split_on d cs
      else (case split_on d cs of [] \<Rightarrow> [[c]] | s # ss \<Rightarrow> (c # s) # ss))"

definition segs :: "string \<Rightarrow> string list" where
  "segs s = filter (\<lambda>p. p \<noteq> [] \<and> p \<noteq> ''.'') (split_on (CHR ''/'') s)"

definition Path_of :: "string \<Rightarrow> Path" where
  "Path_of s = Path (starts_with ''/'' s) (segs s)"

definition pjoin :: "Path \<Rightarrow> string \<Rightarrow> Path" where
  "pjoin p s = (if starts_with ''/'' s then Path_of s else Path (is_abs p) (parts p @ segs s))"

definition pjoinP :: "Path \<Rightarrow> Path \<Rightarrow> Path" where
  "pjoinP p q = (if is_abs q then q else Path (is_abs p) (parts p @ parts q))"

definition str :: "Path \<Rightarrow> string" where
  "str p =
     (if is_abs p then ''/'' @ join ''/'' (parts p)
      else if parts p = [] then ''.'' else join ''/'' (parts p))"

text \<open>\<open>relative_to_root p\<close> is \<open>p.relative_to('/')\<close>, which raises \<open>ValueError\<close> on a
  relative path.\<close>

datatype error =
    FatalError "string list"
  | Fatal string string
  | AssertionError string
  | ValueError string
  | DuplicateOptionError string

definition relative_to_root :: "Path \<Rightarrow> error + Path" where
  "relative_to_root p =
     (if is_abs p then Inr (Path False (parts p)) else Inl (ValueError (str p)))"

section \<open>Cross-compilation projects (crosscompileproject.py)\<close>

text \<open>
  \<open>CrossCompileTarget\<close> is imported from the configuration module; the project classes
  use its three members, which are also the three choices of the \<open>target\<close> option.
\<close>

datatype CrossCompileTarget = NATIVE | MIPS | CHERI

datatype CrossInstallDir = NONE | CHERIBSD_ROOTFS | SDK

text \<open>
  The fields of the global configuration that the classes read.  \<open>rootfsDir\<close> stands for
  \<open>BuildCHERIBSD.rootfsDir(config)\<close>, which lives in another module.
\<close>

record CheriConfig =
  sdkDir :: Path
  sdkBinDir :: Path
  sdkSysrootDir :: Path
  rootfsDir :: Path
  cheriBitsStr :: string
  clangPath :: "Path option"
  clangPlusPlusPath :: "Path option"
  use_sdk_clang_for_native_xbuild :: bool
  withLibstatcounters :: bool

subsection \<open>The computed default of the install directory\<close>

text \<open>
  \<open>_installDir(config, project)\<close> reads three attributes of the project.  \<open>fatalError\<close>
  is a helper of the utilities module: it reports a fatal error made of its arguments;
  the model returns that report as the error value \<open>FatalError\<close>.
\<close>

definition installDir ::
  "CheriConfig \<Rightarrow> CrossCompileTarget \<Rightarrow> CrossInstallDir \<Rightarrow> string \<Rightarrow> error + Path" where
  "installDir config crossCompileTarget crossInstallDir projectName =
     (if crossCompileTarget = NATIVE then Inr (sdkDir config)
      else if crossInstallDir = CHERIBSD_ROOTFS then
        (if crossCompileTarget = CHERI then
           Inr (pjoin (pjoin (pjoin (rootfsDir config) ''opt'')
                  (''cheri'' @ cheriBitsStr config)) (lower projectName))
         else if crossCompileTarget = MIPS then
           Inr (pjoin (pjoin (pjoin (rootfsDir config) ''opt'') ''mips'') (lower projectName))
         else Inl (AssertionError ''crossCompileTarget == MIPS''))
      else if crossInstallDir = SDK then Inr (sdkSysrootDir config)
      else Inl (FatalError [''Unknown install dir for'', projectName]))"

subsection \<open>The dependencies of the cross-compile mixin\<close>

text \<open>\<open>dependencies = lambda cls: [...] if cls.baremetal else [...]\<close>: the function reads
  the class attribute \<open>baremetal\<close> only.\<close>

definition dependencies :: "bool \<Rightarrow> string list" where
  "dependencies baremetal = (if baremetal then [''freestanding-sdk''] else [''cheribsd-sdk''])"

subsection \<open>The state of a cross-compile project\<close>

text \<open>
  Values passed as keyword arguments are \<open>None\<close>, strings, lists of strings, paths or
  booleans.  \<open>strval\<close> is the conversion of \<open>_prepareToolchainFile\<close>:
  \<open>" ".join(value) if isinstance(value, list) else str(value)\<close>.
\<close>

datatype pyval = PNone | PStr string | PList "string list" | PPath Path | PBool bool

fun strval :: "pyval \<Rightarrow> string" where
  "strval PNone = ''None''"
| "strval (PStr s) = s"
| "strval (PList xs) = join '' '' xs"
| "strval (PPath p) = str p"
| "strval (PBool b) = (if b then ''True'' else ''False'')"

fun of_opt_path :: "Path option \<Rightarrow> pyval" where
  "of_opt_path None = PNone"
| "of_opt_path (Some p) = PPath p"

datatype Generator = Ninja | Makefiles

text \<open>
  What a hook does to the world outside the instance, in the order in which it does it.
  \<open>WriteFile\<close>, \<open>CreateSymlink\<close>, \<open>Makedirs\<close>, \<open>RunCmd\<close>, \<open>Warning\<close> and \<open>Info\<close> are the
  calls of the helpers of the same names (\<open>RunCmd\<close> with the command and its working
  directory); \<open>SuperConfigure\<close> is the call of the build system's own \<open>configure\<close> (of
  \<open>CMakeProject\<close> or \<open>AutotoolsProject\<close>), reached through
  \<open>CrossCompileMixin.configure\<close>; \<open>SuperSetup\<close> and \<open>SuperUpdate\<close> are the calls of
  \<open>setup\<close> and \<open>update\<close> of the base class of the QEMU projects.
\<close>

datatype event =
    Warning string
  | Info string
  | CreateSymlink Path Path
  | Makedirs Path
  | WriteFile Path string
  | RunCmd "string list" Path
  | SuperConfigure
  | SuperSetup
  | SuperUpdate

text \<open>
  The attributes of an instance that the hooks read and write.  \<open>cmake_options\<close> lists
  the keyword arguments handed to \<open>add_cmake_options\<close>, call after call.  The
  configure environment is a dictionary from variable names to strings.
\<close>

record CrossCompileProject =
  config :: CheriConfig
  projectName :: string
  crossCompileTarget :: CrossCompileTarget
  baremetal :: bool
  forceDefaultCC :: bool
  warningFlags :: "string list"
  compiler_dir :: Path
  targetTriple :: string
  sdkSysroot :: Path
  installPrefix :: Path
  buildDir :: Path
  COMMON_FLAGS :: "string list"
  CFLAGS :: "string list"
  CXXFLAGS :: "string list"
  ASMFLAGS :: "string list"
  LDFLAGS :: "string list"
  linker :: string
  newCapRelocs :: bool
  optimizationFlags :: "string list"
  cmakeTemplate :: string
  toolchainFile :: Path
  generator :: Generator
  cmake_options :: "(string \<times> pyval) list"
  configureArgs :: "string list"
  configureEnvironment :: "string \<rightharpoonup> string"
  configure_supports_libdir :: bool
  configure_supports_variables_on_cmdline :: bool

text \<open>
  What the hooks read from the machine they run on: the \<open>IS_MAC\<close> flag, the version
  that \<open>_get_cmake_version()\<close> reports, the paths that exist, and the two toolchain
  templates that \<open>includeLocalFile\<close> loads.
\<close>

record Host =
  IS_MAC :: bool
  cmake_version :: "nat \<times> nat \<times> nat"
  existing :: "Path set"
  NativeToolchain_cmake_in :: string
  CheriBSDToolchain_cmake_in :: string

definition exists_path :: "Host \<Rightarrow> Path \<Rightarrow> bool" where
  "exists_path host p = (p \<in> existing host)"

text \<open>Python compares tuples lexicographically.\<close>

fun version_less :: "nat \<times> nat \<times> nat \<Rightarrow> nat \<times> nat \<times> nat \<Rightarrow> bool" where
  "version_less (a, b, c) (x, y, z) = (a < x \<or> (a = x \<and> (b < y \<or> (b = y \<and> c < z))))"


definition compiling_for_cheri :: "CrossCompileProject \<Rightarrow> bool" where
  "compiling_for_cheri self = (crossCompileTarget self = CHERI)"

definition compiling_for_host :: "CrossCompileProject \<Rightarrow> bool" where
  "compiling_for_host self = (crossCompileTarget self = NATIVE)"

definition targetTripleWithVersion :: "CrossCompileProject \<Rightarrow> string" where
  "targetTripleWithVersion self =
     (if compiling_for_host self \<or> baremetal self then targetTriple self
      else targetTriple self @ ''12'')"

text \<open>The last branch of \<open>default_ldflags\<close> (\<open>fatalError("Logic error!")\<close>) needs a
  fourth target and has no counterpart here.\<close>

definition default_ldflags :: "CrossCompileProject \<Rightarrow> string list" where
  "default_ldflags self =
     (if crossCompileTarget self = NATIVE then []
      else
        let emulation =
              (if crossCompileTarget self = CHERI
               then (if \<not> baremetal self then ''elf64btsmip_cheri_fbsd'' else ''elf64btsmip_cheri'')
               else (if \<not> baremetal self then ''elf64btsmip_fbsd'' else ''elf64btsmip''));
            abi = (if crossCompileTarget self = CHERI then ''purecap'' else ''n64'');
            result = [''-mabi='' @ abi, ''-Wl,-m'' @ emulation, ''-fuse-ld='' @ linker self,
                      ''-Wl,-z,notext'', ''-B'' @ str (sdkBinDir (config self))];
            result = (if \<not> baremetal self
                      then result @ [''--sysroot='' @ str (sdkSysroot self)] else result);
            result = (if compiling_for_cheri self \<and> newCapRelocs self
                      then result @ [''-no-capsizefix'', ''-Wl,-process-cap-relocs'', ''-Wl,-verbose'']
                      else result)
        in if withLibstatcounters (config self)
           then result @ [''-Wl,--whole-archive'', ''-lstatcounters'', ''-Wl,--no-whole-archive'']
           else result)"

text \<open>The properties \<open>CC\<close> and \<open>CXX\<close>; the result is \<open>None\<close> when the configured clang
  path is.\<close>

definition CC :: "Host \<Rightarrow> CrossCompileProject \<Rightarrow> Path option" where
  "CC host self =
     (if compiling_for_host self \<and>
         (\<not> use_sdk_clang_for_native_xbuild (config self) \<or> IS_MAC host)
      then (if \<not> forceDefaultCC self then clangPath (config self) else Some (Path_of ''cc''))
      else
        let use_prefixed_cc = \<not> compiling_for_host self \<and> \<not> baremetal self;
            compiler_name = (if use_prefixed_cc then targetTriple self @ ''-clang'' else ''clang'')
        in Some (pjoin (compiler_dir self) compiler_name))"

definition CXX :: "CrossCompileProject \<Rightarrow> Path option" where
  "CXX self =
     (if compiling_for_host self \<and> \<not> use_sdk_clang_for_native_xbuild (config self)
      then (if \<not> forceDefaultCC self then clangPlusPlusPath (config self)
            else Some (Path_of ''c++''))
      else
        let use_prefixed_cxx = \<not> compiling_for_host self \<and> \<not> baremetal self;
            compiler_name = (if use_prefixed_cxx then targetTriple self @ ''-clang++''
                             else ''clang++'')
        in Some (pjoin (compiler_dir self) compiler_name))"


text \<open>\<open>CrossCompileMixin.configure\<close> builds a dictionary that it does not use, and calls
  the next \<open>configure\<close> of the method resolution order: the build system's.\<close>

definition Mixin_configure :: "CrossCompileProject \<Rightarrow> CrossCompileProject \<times> event list" where
  "Mixin_configure self = (self, [SuperConfigure])"

subsection \<open>CMake projects\<close>

text \<open>
  A hook ends by returning or by raising; either way the instance and the world keep
  what was done up to that point.  An outcome is the instance, the events so far, and the
  exception when one was raised.
\<close>

type_synonym outcome = "CrossCompileProject \<times> event list \<times> error option"









subsection \<open>Autotools projects\<close>

definition default_compiler_flags :: "CrossCompileProject \<Rightarrow> string list" where
  "default_compiler_flags self =
     (if compiling_for_host self then COMMON_FLAGS self
      else
        let result = [''-target'', targetTripleWithVersion self] @ COMMON_FLAGS self @
                     optimizationFlags self;
            result = (if \<not> baremetal self
                      then result @ [''--sysroot='' @ str (sdkSysroot self)] else result)
        in result @ [''-B'' @ str (sdkBinDir (config self))] @ warningFlags self)"

definition add_configure_env_arg ::
  "string \<Rightarrow> string \<Rightarrow> CrossCompileProject \<Rightarrow> CrossCompileProject" where
  "add_configure_env_arg arg val self =
     (if val = [] then self
      else
        let self1 = self\<lparr>configureEnvironment := (configureEnvironment self)(arg \<mapsto> val)\<rparr>
        in if configure_supports_variables_on_cmdline self1
           then self1\<lparr>configureArgs := configureArgs self1 @ [arg @ ''='' @ val]\<rparr>
           else self1)"

text \<open>\<open>prog_with_args path args\<close> is the string that \<open>set_prog_with_args\<close> builds:
  \<open>str(path)\<close>, followed by a space and the joined arguments when there are any.\<close>

definition prog_with_args :: "pyval \<Rightarrow> string list \<Rightarrow> string" where
  "prog_with_args path args =
     (if args \<noteq> [] then strval path @ '' '' @ join '' '' args else strval path)"

definition set_prog_with_args ::
  "string \<Rightarrow> pyval \<Rightarrow> string list \<Rightarrow> CrossCompileProject \<Rightarrow> CrossCompileProject" where
  "set_prog_with_args prog path args self =
     (let fullpath = prog_with_args path args;
          self1 = self\<lparr>configureEnvironment := (configureEnvironment self)(prog \<mapsto> fullpath)\<rparr>
      in if configure_supports_variables_on_cmdline self1
         then self1\<lparr>configureArgs := configureArgs self1 @ [prog @ ''='' @ fullpath]\<rparr>
         else self1)"

text \<open>The comprehension \<open>{k: v for k, v in env.items() if v}\<close>.\<close>

definition without_empty :: "(string \<rightharpoonup> string) \<Rightarrow> (string \<rightharpoonup> string)" where
  "without_empty env =
     (\<lambda>k. case env k of None \<Rightarrow> None | Some v \<Rightarrow> if v = [] then None else Some v)"

text \<open>
  \<open>CrossCompileAutotoolsProject.configure\<close>.  The four assertions are checked in the
  order of the loop; they carry no message.  (The \<open>print\<close> of the environment is left
  out: it changes nothing.)
\<close>

definition Autotools_configure :: "Host \<Rightarrow> CrossCompileProject \<Rightarrow> outcome" where
  "Autotools_configure host self0 =
     (let self1 =
            (if compiling_for_cheri self0 \<and> configure_supports_libdir self0
             then self0\<lparr>configureArgs := configureArgs self0 @
                          [''--libdir='' @ str (installPrefix self0) @ ''/libcheri'']\<rparr>
             else self0);
          finish = (\<lambda>self.
             let self' = self\<lparr>configureEnvironment := without_empty (configureEnvironment self)\<rparr>;
                 (self'', evs) = Mixin_configure self'
             in (self'', evs, None))
      in if \<not> baremetal self1 then
           let CPPFLAGS = default_compiler_flags self1
           in if \<exists>key \<in> set [''CFLAGS'', ''CXXFLAGS'', ''CPPFLAGS'', ''LDFLAGS''].
                   configureEnvironment self1 key \<noteq> None
              then (self1, [], Some (AssertionError []))
              else
                let self2 = set_prog_with_args ''CC'' (of_opt_path (CC host self1))
                              (CPPFLAGS @ CFLAGS self1) self1;
                    self3 = set_prog_with_args ''CXX'' (of_opt_path (CXX self2))
                              (CPPFLAGS @ CXXFLAGS self2) self2;
                    self4 = add_configure_env_arg ''LDFLAGS''
                              (join '' '' (LDFLAGS self3 @ default_ldflags self3)) self3;
                    self5 =
                      (if \<not> compiling_for_host self4 then
                         let self' = set_prog_with_args ''CPP''
                                       (PPath (pjoin (compiler_dir self4)
                                                 (targetTriple self4 @ ''-clang-cpp'')))
                                       CPPFLAGS self4
                         in if str_in ''lld'' (linker self') \<and>
                               exists_path host (pjoin (compiler_dir self') ''ld.lld'')
                            then add_configure_env_arg ''LD''
                                   (str (pjoin (compiler_dir self') ''ld.lld'')) self'
                            else self'
                       else self4)
                in finish self5
         else finish self1)"

text \<open>An environment entry after the empty ones have been removed.\<close>

definition nonempty :: "string \<Rightarrow> string option" where
  "nonempty v = (if v = [] then None else Some v)"


section \<open>The FETT configuration project (fett.py)\<close>

text \<open>
  Modelled from the spec: \<open>MtreeFile\<close> (the module \<open>mtree\<close> is not part of the sources at
  hand).  A manifest is the list of its entries; a shared install directory "accumulates
  contributions" by "only additive writes/symlink creation", so \<open>add_file\<close> and
  \<open>add_dir\<close> append the entry they describe, \<open>load\<close> (here \<open>mtree_load\<close>) appends the entries
  of the file and \<open>write\<close> (here \<open>mtree_write\<close>) stores the entries in the file.  A file entry keeps the arguments \<open>file\<close>,
  \<open>path_in_image\<close>, \<open>mode\<close> and \<open>symlink\<close> of \<open>add_file\<close>, a directory entry the
  arguments \<open>path\<close>, \<open>uname\<close> and \<open>gname\<close> of \<open>add_dir\<close>.
\<close>

datatype mtree_entry =
    FileEntry string string "string option" bool
  | DirEntry string "string option" "string option"

type_synonym MtreeFile = "mtree_entry list"

definition add_file ::
  "string \<Rightarrow> string \<Rightarrow> string option \<Rightarrow> bool \<Rightarrow> MtreeFile \<Rightarrow> MtreeFile" where
  "add_file file path_in_image file_mode is_symlink mtree =
     mtree @ [FileEntry file path_in_image file_mode is_symlink]"

definition add_dir :: "string \<Rightarrow> string option \<Rightarrow> string option \<Rightarrow> MtreeFile \<Rightarrow> MtreeFile" where
  "add_dir path owner grp mtree = mtree @ [DirEntry path owner grp]"

text \<open>
  The files that hold manifests, by path (\<open>None\<close>: no such file), and the process
  environment.
\<close>

record FettWorld =
  environ :: "string \<rightharpoonup> string"
  manifests :: "Path \<rightharpoonup> MtreeFile"

definition mtree_load :: "FettWorld \<Rightarrow> Path \<Rightarrow> MtreeFile \<Rightarrow> MtreeFile" where
  "mtree_load world file mtree = mtree @ (case manifests world file of None \<Rightarrow> [] | Some es \<Rightarrow> es)"

definition mtree_write :: "Path \<Rightarrow> MtreeFile \<Rightarrow> FettWorld \<Rightarrow> FettWorld" where
  "mtree_write file mtree world = world\<lparr>manifests := (manifests world)(file \<mapsto> mtree)\<rparr>"

text \<open>
  The attributes of a \<open>BuildFettConfig\<close> instance that \<open>install\<close> uses.  The two install
  prefixes are \<open>BuildFettNginx.get_instance(self)._installPrefix\<close> and its OpenSSH
  counterpart.
\<close>

record BuildFettConfig =
  mtree :: MtreeFile
  METALOG :: Path
  sourceDir :: Path
  nginx_installPrefix :: Path
  openssh_installPrefix :: Path

text \<open>\<open>__init__\<close>: a fresh manifest, and the \<open>METALOG\<close> file of the destination directory.\<close>

definition BuildFettConfig_init :: "Path \<Rightarrow> BuildFettConfig \<Rightarrow> BuildFettConfig" where
  "BuildFettConfig_init destdir self = self\<lparr>mtree := [], METALOG := pjoin destdir ''METALOG''\<rparr>"

text \<open>\<open>os.getenv(name)\<close> in a condition: true when the variable is set to a non-empty
  string.\<close>

definition getenv_true :: "FettWorld \<Rightarrow> string \<Rightarrow> bool" where
  "getenv_true world name = (case environ world name of None \<Rightarrow> False | Some v \<Rightarrow> v \<noteq> [])"

definition nginx_bits :: "Path \<Rightarrow> Path \<Rightarrow> MtreeFile \<Rightarrow> MtreeFile" where
  "nginx_bits src nginx_prefix mtree0 =
     (let nginx_src = pjoin src ''build/webserver'';
          mtree1 = add_file (str (pjoin nginx_src ''common/conf/nginx.conf''))
                     (str (pjoin nginx_prefix ''conf/nginx.conf'')) None False mtree0;
          mtree2 = add_dir (str (pjoin nginx_prefix ''logs'')) None None mtree1;
          mtree3 = add_file (str (pjoin nginx_src ''common/keys/private-selfsigned.key''))
                     (str (pjoin nginx_prefix ''etc/ssl/private/private-selfsigned.key''))
                     (Some ''0600'') False mtree2;
          mtree4 = add_file (str (pjoin nginx_src ''common/certs/selfsigned.crt''))
                     (str (pjoin nginx_prefix ''etc/ssl/certs/selfsigned.crt'')) None False mtree3;
          mtree5 = add_file (str (pjoin src ''build/webserver/FreeBSD/rcfile''))
                     ''etc/rc.d/fett_nginx'' (Some ''0555'') False mtree4;
          mtree6 = add_dir (str (pjoin nginx_prefix ''post'')) (Some ''www'') (Some ''www'') mtree5;
          html_files = [''index.html'', ''private/secret.html'', ''stanford.png'',
                        ''static.html'', ''test.txt'']
      in fold (\<lambda>file. add_file (str (pjoin (pjoin src ''build/webserver/common/html'') file))
                          (str (pjoin (pjoin nginx_prefix ''html'') file)) None False)
           html_files mtree6)"

definition sshd_bits :: "Path \<Rightarrow> Path \<Rightarrow> MtreeFile \<Rightarrow> MtreeFile" where
  "sshd_bits src ssh_prefix mtree0 =
     (let keyfiles = [''ssh_host_dsa_key'', ''ssh_host_ecdsa_key'', ''ssh_host_ed25519_key'',
                      ''ssh_host_rsa_key''];
          mtree1 = fold (\<lambda>keyfile. add_file (''/etc/ssh/'' @ keyfile)
                                      (str (pjoin (pjoin ssh_prefix ''etc/'') keyfile)) None True)
                     keyfiles mtree0
      in add_file (str (pjoin src ''build/ssh/FreeBSD/fett_sshd'')) ''etc/rc.d/fett_sshd''
           (Some ''0555'') False mtree1)"

text \<open>
  \<open>BuildFettConfig.install\<close>.  The result is the instance, the world and the error that
  ended the method, if any: the fatal error of the missing \<open>METALOG\<close>, or the
  \<open>ValueError\<close> of \<open>relative_to('/')\<close> on a prefix that is not absolute.
\<close>

definition install ::
  "BuildFettConfig \<Rightarrow> FettWorld \<Rightarrow> BuildFettConfig \<times> FettWorld \<times> error option" where
  "install self world =
     (if getenv_true world ''_TEST_SKIP_METALOG'' then (self, world, None)
      else if manifests world (METALOG self) = None then
        (self, world, Some (FatalError [''METALOG '' @ str (METALOG self) @ ''does not exist'']))
      else
        let self1 = self\<lparr>mtree := mtree_load world (METALOG self) (mtree self)\<rparr>;
            src = sourceDir self1
        in case relative_to_root (nginx_installPrefix self1) of
             Inl e \<Rightarrow> (self1, world, Some e)
           | Inr nginx_prefix \<Rightarrow>
               let self2 = self1\<lparr>mtree := nginx_bits src nginx_prefix (mtree self1)\<rparr>
               in case relative_to_root (openssh_installPrefix self2) of
                    Inl e \<Rightarrow> (self2, world, Some e)
                  | Inr ssh_prefix \<Rightarrow>
                      let self3 = self2\<lparr>mtree := sshd_bits src ssh_prefix (mtree self2)\<rparr>
                      in (self3, mtree_write (METALOG self3) (mtree self3) world, None))"

section \<open>The QEMU projects (build_qemu.py)\<close>

text \<open>
  \<open>BuildType\<close> and the operating system of the build machine come from other modules; the
  QEMU classes compare the build type with \<open>DEBUG\<close> and ask the target information
  whether the machine runs Linux, FreeBSD or macOS.
\<close>

datatype BuildType = DEBUG | RELEASE | OTHER_BUILD_TYPE

datatype OS = Linux | FreeBSD | MacOS | OtherOS

text \<open>
  What the hooks read from outside the instance: the operating system, the paths that
  exist and those that are directories, the result of
  \<open>_cached_get_homebrew_prefix("samba", config)\<close>, three fields of the configuration,
  \<open>sys.executable\<close>, the compiler information of \<open>self.CC\<close>, and the helper
  \<open>commandline_to_str\<close>, which is defined in another module and is kept as a parameter.
\<close>

record QemuHost =
  os :: OS
  paths :: "Path set"
  dirs :: "Path set"
  homebrew_samba_prefix :: "Path option"
  other_tools_dir :: Path
  verbose :: bool
  create_compilation_db :: bool
  sys_executable :: string
  ccinfo_compiler :: string
  ccinfo_version :: "nat \<times> nat \<times> nat"
  commandline_to_str :: "string list \<Rightarrow> string"

text \<open>
  The attributes of a QEMU project instance.  The first group are its options;
  \<open>qemu_targets_is_default\<close> is \<open>is_default_value\<close> of the option behind
  \<open>qemu_targets\<close>.  Names that end in a prime are the attributes \<open>COMMON_FLAGS\<close>,
  \<open>CFLAGS\<close>, \<open>CXXFLAGS\<close>, \<open>LDFLAGS\<close>, \<open>CC\<close>, \<open>CXX\<close>, \<open>default_compiler_flags\<close> and
  \<open>default_ldflags\<close> of the instance.  \<open>required_system_tools\<close> and
  \<open>required_pkg_config\<close> list the arguments of the calls of \<open>add_required_system_tool\<close>
  and \<open>add_required_pkg_config\<close>.
\<close>

record QemuProject =
  use_smbd :: bool
  gui :: bool
  build_profiler :: bool
  qemu_targets :: string
  qemu_targets_is_default :: bool
  prefer_full_lto_over_thin_lto :: bool
  unaligned :: bool
  statistics :: bool
  use_asan :: bool
  use_lto :: bool
  target :: string
  build_type :: BuildType
  source_dir :: Path
  skip_update :: bool
  COMMON_FLAGS' :: "string list"
  CFLAGS' :: "string list"
  CXXFLAGS' :: "string list"
  LDFLAGS' :: "string list"
  CC' :: Path
  CXX' :: Path
  default_compiler_flags' :: "string list"
  default_ldflags' :: "string list"
  common_warning_flags :: "string list"
  configure_args :: "string list"
  make_args_command :: string
  make_args_V :: bool
  required_system_tools :: "string list"
  required_pkg_config :: "string list"

type_synonym qemu_outcome = "QemuProject \<times> event list \<times> error option"

subsection \<open>Construction\<close>

text \<open>
  \<open>BuildQEMUBase.__init__\<close>, after the constructor of \<open>AutotoolsProject\<close>, block by block:
  the required tools and packages, the flags of the build type and of the options \<open>gui\<close>
  and \<open>build_profiler\<close>, the Python interpreter, the address sanitizer, and the flags that
  depend on the machine.
\<close>

definition init_requirements :: "QemuHost \<Rightarrow> QemuProject \<Rightarrow> QemuProject" where
  "init_requirements host self =
     self\<lparr>required_system_tools := required_system_tools self @
            [if os host = MacOS then ''glibtoolize'' else ''libtoolize'',
             ''autoreconf'', ''aclocal'',
             if os host = Linux then ''sed'' else ''gsed''],
          required_pkg_config := required_pkg_config self @ [''pixman-1'', ''glib-2.0'']\<rparr>"

definition init_debug_tcg :: "QemuProject \<Rightarrow> QemuProject" where
  "init_debug_tcg self =
     (if build_type self = DEBUG
      then self\<lparr>COMMON_FLAGS' := COMMON_FLAGS' self @ [''-DCONFIG_DEBUG_TCG=1'']\<rparr>
      else self)"

definition init_gui :: "QemuHost \<Rightarrow> QemuProject \<Rightarrow> QemuProject" where
  "init_gui host self =
     (if \<not> gui self
      then self\<lparr>configure_args := configure_args self @
             [''--disable-sdl'', ''--disable-gtk'', ''--disable-opengl''] @
             (if os host = MacOS then [''--disable-cocoa''] else [])\<rparr>
      else self)"

definition init_profiler :: "QemuProject \<Rightarrow> QemuProject" where
  "init_profiler self =
     (if build_profiler self
      then self\<lparr>configure_args := configure_args self @ [''--enable-profiler'']\<rparr>
      else self)"

definition init_python_and_debug :: "QemuHost \<Rightarrow> QemuProject \<Rightarrow> QemuProject" where
  "init_python_and_debug host self =
     self\<lparr>configure_args := configure_args self @
            [''--python='' @ sys_executable host] @
            (if build_type self = DEBUG then [''--enable-debug'', ''--enable-debug-tcg'']
             else [''--disable-stack-protector''])\<rparr>"

definition init_asan :: "QemuProject \<Rightarrow> QemuProject \<times> event list" where
  "init_asan self =
     (if use_asan self
      then (self\<lparr>configure_args := configure_args self @ [''--enable-sanitizers''],
                 COMMON_FLAGS' := COMMON_FLAGS' self @ [''-fno-sanitize-recover=all''],
                 use_lto := False\<rparr>,
            if use_lto self then [Info ''Disabling LTO for ASAN instrumented builds''] else [])
      else (self, []))"

definition init_machine :: "QemuHost \<Rightarrow> QemuProject \<Rightarrow> QemuProject" where
  "init_machine host self =
     (let self1 = self\<lparr>configure_args := configure_args self @ [''--disable-strip''] @
                    (if os host \<noteq> Linux then [''--disable-linux-aio'', ''--disable-kvm'']
                     else [])\<rparr>
      in if verbose host then self1\<lparr>make_args_V := True\<rparr> else self1)"

definition BuildQEMUBase_init :: "QemuHost \<Rightarrow> QemuProject \<Rightarrow> QemuProject \<times> event list" where
  "BuildQEMUBase_init host self0 =
     (let self1 = init_requirements host self0;
          self2 = init_debug_tcg self1;
          self3 = init_gui host self2;
          self4 = init_profiler self3;
          self5 = init_python_and_debug host self4;
          (self6, evs) = init_asan self5
      in (init_machine host self6, evs))"

text \<open>\<open>BuildQEMU.__init__\<close>.\<close>

definition init_cheri_flags :: "QemuProject \<Rightarrow> QemuProject" where
  "init_cheri_flags self =
     (let self1 = (if unaligned self
                   then self\<lparr>COMMON_FLAGS' := COMMON_FLAGS' self @ [''-DCHERI_UNALIGNED'']\<rparr>
                   else self)
      in if statistics self1
         then self1\<lparr>COMMON_FLAGS' := COMMON_FLAGS' self1 @ [''-DDO_CHERI_STATISTICS=1'']\<rparr>
         else self1)"

definition BuildQEMU_init :: "QemuHost \<Rightarrow> QemuProject \<Rightarrow> QemuProject \<times> event list" where
  "BuildQEMU_init host self0 =
     (let (self1, evs) = BuildQEMUBase_init host self0
      in (init_cheri_flags self1, evs))"

subsection \<open>Setup\<close>

text \<open>The path at which \<open>setup\<close> looks for \<open>smbd\<close>: the guess for the operating system,
  unless the self-compiled samba exists.\<close>

definition guessed_smbd_path :: "QemuHost \<Rightarrow> Path" where
  "guessed_smbd_path host =
     (if os host = FreeBSD then Path_of ''/usr/local/sbin/smbd''
      else if os host = MacOS then
        (case homebrew_samba_prefix host of
           Some prefix \<Rightarrow> pjoin prefix ''sbin/samba-dot-org-smbd''
         | None \<Rightarrow> pjoin (other_tools_dir host) ''sbin/smbd'')
      else Path_of ''/usr/sbin/smbd'')"

definition smbd_path :: "QemuHost \<Rightarrow> Path" where
  "smbd_path host =
     (if pjoin (other_tools_dir host) ''sbin/smbd'' \<in> paths host
      then pjoin (other_tools_dir host) ''sbin/smbd''
      else guessed_smbd_path host)"

definition smbd_fixit_hint :: "QemuProject \<Rightarrow> string" where
  \<open>smbd_fixit_hint self =
     ''Either install samba using the system package manager or with cheribuild. '' @
     ''If you really don't need QEMU host shares you can disable the samba dependency '' @
     ''by setting --'' @ target self @ ''/no-use-smbd''\<close>

text \<open>
  \<open>BuildQEMUBase.setup\<close>, block by block.  The first event is the \<open>setup\<close> of the base
  class, which is not modelled further.  \<open>self.fatal\<close> ends the hook with the error
  \<open>Fatal\<close>, which keeps the message and the fix-it hint.
\<close>

definition setup_warning_flags :: "QemuHost \<Rightarrow> QemuProject \<Rightarrow> QemuProject" where
  "setup_warning_flags host self =
     (let self1 =
            (if ccinfo_compiler host = ''apple-clang'' \<or>
                (ccinfo_compiler host = ''clang'' \<and> \<not> version_less (ccinfo_version host) (4, 0, 0))
             then self\<lparr>CFLAGS' := CFLAGS' self @
                    [''-Werror=implicit-function-declaration'',
                     ''-Werror=incompatible-pointer-types'',
                     ''-Werror=incompatible-pointer-types-discards-qualifiers'',
                     ''-Wno-address-of-packed-member'',
                     ''-Wextra'', ''-Wno-sign-compare'', ''-Wno-unused-parameter'',
                     ''-Wno-missing-field-initializers'']\<rparr>
             else self)
      in self1\<lparr>common_warning_flags := common_warning_flags self1 @ [''-Werror=return-type'']\<rparr>)"

definition setup_smbd :: "QemuHost \<Rightarrow> QemuProject \<Rightarrow> qemu_outcome" where
  "setup_smbd host self =
     (if use_smbd self then
        let evs = (if os host = MacOS
                   then [Info (''Guessed samba path '' @ str (guessed_smbd_path host))] else []);
            self1 = self\<lparr>required_system_tools :=
                           required_system_tools self @ [str (smbd_path host)],
                        configure_args :=
                           configure_args self @ [''--smbd='' @ str (smbd_path host)]\<rparr>
        in if smbd_path host \<notin> paths host then
             (self1,
              evs @
              (if os host = MacOS
               then [Warning (''QEMU user-mode samba shares require the samba.org smbd. You '' @
                       ''will need to install it using homebrew (`brew install samba`) or build '' @
                       ''from source (`cheribuild.py samba`) since the /usr/sbin/smbd shipped by '' @
                       ''macOS is incompatible with QEMU'')]
               else []),
              Some (Fatal ''Could not find smbd -> QEMU SMB shares networking will not work''
                      (smbd_fixit_hint self1)))
           else (self1, evs, None)
      else (self, [], None))"

definition setup_configure_args :: "QemuHost \<Rightarrow> QemuProject \<Rightarrow> QemuProject" where
  "setup_configure_args host self =
     (let self1 = self\<lparr>configure_args := configure_args self @
                    [''--target-list='' @ qemu_targets self,
                     ''--enable-slirp=git'',
                     ''--disable-linux-user'',
                     ''--disable-xen'',
                     ''--disable-docs'',
                     ''--disable-rdma'',
                     ''--disable-werror'',
                     ''--disable-pie'',
                     ''--extra-cflags='' @
                        commandline_to_str host (default_compiler_flags' self @ CFLAGS' self),
                     ''--cxx='' @ str (CXX' self),
                     ''--cc='' @ str (CC' self),
                     ''--make='' @ make_args_command self]\<rparr>;
          self2 = (if create_compilation_db host then self1\<lparr>make_args_V := True\<rparr> else self1);
          ldflags = default_ldflags' self2 @ LDFLAGS' self2;
          self3 = (if ldflags \<noteq> []
                   then self2\<lparr>configure_args := configure_args self2 @
                          [''--extra-ldflags='' @ commandline_to_str host ldflags]\<rparr>
                   else self2);
          cxxflags = default_compiler_flags' self3 @ CXXFLAGS' self3
      in if cxxflags \<noteq> []
         then self3\<lparr>configure_args := configure_args self3 @
                [''--extra-cxxflags='' @ commandline_to_str host cxxflags]\<rparr>
         else self3)"

definition BuildQEMUBase_setup :: "QemuHost \<Rightarrow> QemuProject \<Rightarrow> qemu_outcome" where
  "BuildQEMUBase_setup host self0 =
     (case setup_smbd host (setup_warning_flags host self0) of
        (self1, evs, Some e) \<Rightarrow> (self1, SuperSetup # evs, Some e)
      | (self1, evs, None) \<Rightarrow> (setup_configure_args host self1, SuperSetup # evs, None))"

text \<open>\<open>BuildSystemQEMU.setup\<close>.\<close>

definition BuildSystemQEMU_setup :: "QemuHost \<Rightarrow> QemuProject \<Rightarrow> qemu_outcome" where
  "BuildSystemQEMU_setup host self0 =
     (case BuildQEMUBase_setup host self0 of
        (self1, evs, Some e) \<Rightarrow> (self1, evs, Some e)
      | (self1, evs, None) \<Rightarrow>
          (self1\<lparr>configure_args := configure_args self1 @ [''--disable-bsd-user'']\<rparr>, evs, None))"

text \<open>
  \<open>BuildQEMU.setup\<close>.  The assertion on the static attribute holds as long as the option
  is still the one that \<open>setup_config_options\<close> installed, which is the case when the
  hook runs once per instance.
\<close>

definition morello_by_default :: "QemuHost \<Rightarrow> QemuProject \<Rightarrow> bool" where
  "morello_by_default host self =
     (\<not> str_in ''morello-softmmu'' (qemu_targets self) \<and>
      pjoin (source_dir self) ''default-configs/targets/morello-softmmu.mak'' \<in> paths host \<and>
      qemu_targets_is_default self)"

definition setup_morello :: "QemuHost \<Rightarrow> QemuProject \<Rightarrow> QemuProject" where
  "setup_morello host self =
     (if morello_by_default host self
      then self\<lparr>qemu_targets := qemu_targets self @ '',morello-softmmu''\<rparr>
      else self)"

definition setup_cheri :: "QemuProject \<Rightarrow> QemuProject" where
  "setup_cheri self =
     (let self1 = (if build_type self = DEBUG
                   then self\<lparr>COMMON_FLAGS' := COMMON_FLAGS' self @
                          [''-DENABLE_CHERI_SANITIY_CHECKS=1'']\<rparr>
                   else self)
      in self1\<lparr>configure_args := configure_args self1 @ [''--disable-capstone'']\<rparr>)"

definition BuildQEMU_setup :: "QemuHost \<Rightarrow> QemuProject \<Rightarrow> qemu_outcome" where
  "BuildQEMU_setup host self0 =
     (case BuildSystemQEMU_setup host (setup_morello host self0) of
        (self1, evs, Some e) \<Rightarrow> (self1, evs, Some e)
      | (self1, evs, None) \<Rightarrow> (setup_cheri self1, evs, None))"

subsection \<open>Update\<close>

text \<open>
  The working copy, as far as \<open>update\<close> is concerned: the tracked subdirectories of the
  source directory that have local modifications.  \<open>git checkout HEAD po/\<close> resets the
  files of \<open>po/\<close> to the revision \<open>HEAD\<close> and touches nothing else ("we don't lose any
  other changes", as the comment in the source has it).
\<close>

type_synonym WorkingCopy = "string set"

definition git_checkout_HEAD :: "string \<Rightarrow> WorkingCopy \<Rightarrow> WorkingCopy" where
  "git_checkout_HEAD subdir modified = modified - {subdir}"

text \<open>\<open>BuildQEMUBase.update\<close>.  The result is the working copy that is handed to the
  \<open>update\<close> of the base class (the last event), and the events.\<close>

definition BuildQEMUBase_update ::
  "QemuHost \<Rightarrow> QemuProject \<Rightarrow> WorkingCopy \<Rightarrow> WorkingCopy \<times> event list" where
  "BuildQEMUBase_update host self modified =
     (let reset_po = (pjoin (source_dir self) ''po'' \<in> dirs host \<and> \<not> skip_update self);
          modified1 = (if reset_po then git_checkout_HEAD ''po'' modified else modified);
          evs1 = (if reset_po
                  then [RunCmd [''git'', ''checkout'', ''HEAD'', ''po/''] (source_dir self)]
                  else []);
          evs2 = (if pjoin (source_dir self) ''pixman/pixman'' \<in> paths host
                  then [Warning (''QEMU might build the broken pixman submodule, '' @
                          ''run `git submodule deinit -f pixman` to clean'')]
                  else [])
      in (modified1, evs1 @ evs2 @ [SuperUpdate]))"

subsection \<open>The options of the QEMU classes\<close>

text \<open>
  Modelled from the spec: the registration of an option (\<open>add_bool_option\<close> and
  \<open>add_config_option\<close> belong to the option loader, which is not part of the sources at
  hand).  The registry holds the names of the options of the class; registering a name
  "fails with \<open>DuplicateOptionError\<close> if already registered".
\<close>

definition add_option :: "string \<Rightarrow> string list \<Rightarrow> error + string list" where
  "add_option name registry =
     (if name \<in> set registry then Inl (DuplicateOptionError name) else Inr (registry @ [name]))"

fun add_options :: "string list \<Rightarrow> string list \<Rightarrow> error + string list" where
  "add_options [] registry = Inr registry"
| "add_options (name # names) registry =
     (case add_option name registry of
        Inl e \<Rightarrow> Inl e
      | Inr registry' \<Rightarrow> add_options names registry')"

text \<open>
  An option-setup hook takes the keyword arguments and the registry.  Every override
  below takes the hook of the next class as its first argument and starts by calling it,
  as \<open>super().setup_config_options(...)\<close> does; \<open>BuildQEMU\<close> calls it without keyword
  arguments.
\<close>

type_synonym 'v hook = "(string \<times> 'v) list \<Rightarrow> string list \<Rightarrow> error + string list"

definition BuildQEMUBase_setup_config_options :: "'v hook \<Rightarrow> 'v hook" where
  "BuildQEMUBase_setup_config_options super kwargs registry =
     (case super kwargs registry of
        Inl e \<Rightarrow> Inl e
      | Inr registry1 \<Rightarrow>
          add_options [''use-smbd'', ''gui'', ''build-profiler'', ''targets'', ''full-lto'']
            registry1)"

definition BuildQEMU_setup_config_options :: "'v hook \<Rightarrow> 'v hook" where
  "BuildQEMU_setup_config_options super kwargs registry =
     (case BuildQEMUBase_setup_config_options super [] registry of
        Inl e \<Rightarrow> Inl e
      | Inr registry1 \<Rightarrow> add_options [''unaligned'', ''statistics''] registry1)"

text \<open>\<open>CrossCompileMixin.setupConfigOptions\<close>; the flag says whether the static class
  attribute \<open>crossCompileTarget\<close> is \<open>None\<close>.\<close>

definition CrossCompileMixin_setupConfigOptions :: "bool \<Rightarrow> 'v hook \<Rightarrow> 'v hook" where
  "CrossCompileMixin_setupConfigOptions target_is_None super kwargs registry =
     (case super kwargs registry of
        Inl e \<Rightarrow> Inl e
      | Inr registry1 \<Rightarrow>
          add_options
            ([''use-mxgot'', ''linker'', ''debug-info'', ''optimization-flags'', ''new-cap-relocs''] @
             (if target_is_None then [''target''] else []))
            registry1)"

definition CrossCompileCMakeProject_setupConfigOptions :: "bool \<Rightarrow> 'v hook \<Rightarrow> 'v hook" where
  "CrossCompileCMakeProject_setupConfigOptions target_is_None super kwargs registry =
     CrossCompileMixin_setupConfigOptions target_is_None super kwargs registry"

section \<open>Sample inputs\<close>

definition example_config :: CheriConfig where
  "example_config =
     \<lparr>sdkDir = Path_of ''/out/sdk'', sdkBinDir = Path_of ''/out/sdk/bin'',
      sdkSysrootDir = Path_of ''/out/sdk/sysroot'', rootfsDir = Path_of ''/out/rootfs'',
      cheriBitsStr = ''128'', clangPath = Some (Path_of ''/usr/bin/clang''),
      clangPlusPlusPath = Some (Path_of ''/usr/bin/clang++''),
      use_sdk_clang_for_native_xbuild = False, withLibstatcounters = False\<rparr>"

definition template_of :: "string list \<Rightarrow> string" where
  "template_of keys = concat (map (\<lambda>k. ''@'' @ k @ ''@\<newline>'') keys)"

definition example_host :: Host where
  "example_host =
     \<lparr>IS_MAC = False, cmake_version = (3, 10, 2), existing = {},
      NativeToolchain_cmake_in =
        template_of [''TOOLCHAIN_SDK_BINDIR'', ''TOOLCHAIN_COMPILER_BINDIR'',
          ''TOOLCHAIN_TARGET_TRIPLE'', ''TOOLCHAIN_COMMON_FLAGS'', ''TOOLCHAIN_C_FLAGS'',
          ''TOOLCHAIN_LINKER_FLAGS'', ''TOOLCHAIN_CXX_FLAGS'', ''TOOLCHAIN_ASM_FLAGS'',
          ''TOOLCHAIN_C_COMPILER'', ''TOOLCHAIN_CXX_COMPILER''],
      CheriBSDToolchain_cmake_in =
        template_of [''TOOLCHAIN_SDK_BINDIR'', ''TOOLCHAIN_COMPILER_BINDIR'',
          ''TOOLCHAIN_TARGET_TRIPLE'', ''TOOLCHAIN_COMMON_FLAGS'', ''TOOLCHAIN_C_FLAGS'',
          ''TOOLCHAIN_LINKER_FLAGS'', ''TOOLCHAIN_CXX_FLAGS'', ''TOOLCHAIN_ASM_FLAGS'',
          ''TOOLCHAIN_C_COMPILER'', ''TOOLCHAIN_CXX_COMPILER'', ''TOOLCHAIN_SYSROOT'',
          ''ADD_TOOLCHAIN_LIB_SUFFIX'', ''TOOLCHAIN_SYSTEM_PROCESSOR'', ''TOOLCHAIN_SYSTEM_NAME'',
          ''TOOLCHAIN_PKGCONFIG_DIRS'']\<rparr>"

definition example_project :: CrossCompileProject where
  "example_project =
     \<lparr>config = example_config, projectName = ''libexpat'', crossCompileTarget = CHERI,
      baremetal = False, forceDefaultCC = False,
      warningFlags = [''-Wall'', ''-Werror=format''],
      compiler_dir = Path_of ''/out/sdk/bin'', targetTriple = ''cheri-unknown-freebsd'',
      sdkSysroot = Path_of ''/out/sdk/sysroot'',
      installPrefix = Path_of ''/opt/cheri128/libexpat'',
      buildDir = Path_of ''/build/libexpat-128-build'',
      COMMON_FLAGS = [''-integrated-as'', ''-pipe'', ''-G0'', ''-msoft-float'',
        ''-ftls-model=initial-exec'', ''-mabi=purecap'', ''-mcpu=mips4'', ''-cheri=128'', ''-ggdb''],
      CFLAGS = [], CXXFLAGS = [], ASMFLAGS = [], LDFLAGS = [],
      linker = ''lld'', newCapRelocs = False, optimizationFlags = [''-O2''],
      cmakeTemplate = [], toolchainFile = Path_of ''.'', generator = Ninja, cmake_options = [],
      configureArgs = [], configureEnvironment = Map.empty,
      configure_supports_libdir = True, configure_supports_variables_on_cmdline = True\<rparr>"




text \<open>A project whose configure script takes no variables on its command line, as the
  class attribute \<open>_configure_supports_variables_on_cmdline\<close> allows.\<close>

definition no_cmdline_vars_project :: CrossCompileProject where
  "no_cmdline_vars_project =
     example_project\<lparr>configure_supports_variables_on_cmdline := False\<rparr>"


definition fett_example :: BuildFettConfig where
  "fett_example =
     BuildFettConfig_init (Path_of ''/out/rootfs128'')
       \<lparr>mtree = [], METALOG = Path_of ''.'', sourceDir = Path_of ''/src/fett-config'',
        nginx_installPrefix = Path_of ''/fett/nginx'',
        openssh_installPrefix = Path_of ''/fett''\<rparr>"

definition fett_world :: FettWorld where
  "fett_world =
     \<lparr>environ = Map.empty,
      manifests = [Path_of ''/out/rootfs128/METALOG'' \<mapsto>
                     [DirEntry ''.'' (Some ''root'') (Some ''wheel'')]]\<rparr>"

definition fett_world_empty_var :: FettWorld where
  "fett_world_empty_var = fett_world\<lparr>environ := [''_TEST_SKIP_METALOG'' \<mapsto> []]\<rparr>"

definition fett_world_skip :: FettWorld where
  "fett_world_skip = fett_world\<lparr>environ := [''_TEST_SKIP_METALOG'' \<mapsto> ''1'']\<rparr>"

definition fett_world_no_metalog :: FettWorld where
  "fett_world_no_metalog = fett_world\<lparr>manifests := Map.empty\<rparr>"

section \<open>Properties\<close>

text \<open>
  C6: the dependencies function of the cross-compile mixin returns exactly
  \<open>["freestanding-sdk"]\<close> for a baremetal class and exactly \<open>["cheribsd-sdk"]\<close> for
  every other class.
\<close>

theorem dependencies_by_baremetal:
  "dependencies True = [''freestanding-sdk''] \<and> dependencies False = [''cheribsd-sdk'']"
  by (simp add: dependencies_def)

text \<open>
  C4: the computed default of the install directory is the SDK directory for a native
  project; otherwise, for the rootfs policy, the rootfs directory joined with \<open>opt\<close>, the
  architecture name (\<open>cheri\<close> followed by the CHERI bits, or \<open>mips\<close>) and the lowercase
  project name; for the SDK policy the SDK sysroot; and for any other policy the fatal
  error "Unknown install dir".
\<close>

theorem installDir_cases:
  "(t = NATIVE \<longrightarrow> installDir cfg t d n = Inr (sdkDir cfg)) \<and>
   (t = CHERI \<and> d = CHERIBSD_ROOTFS \<longrightarrow>
      installDir cfg t d n =
        Inr (pjoin (pjoin (pjoin (rootfsDir cfg) ''opt'') (''cheri'' @ cheriBitsStr cfg))
              (lower n))) \<and>
   (t = MIPS \<and> d = CHERIBSD_ROOTFS \<longrightarrow>
      installDir cfg t d n =
        Inr (pjoin (pjoin (pjoin (rootfsDir cfg) ''opt'') ''mips'') (lower n))) \<and>
   (t \<noteq> NATIVE \<and> d = SDK \<longrightarrow> installDir cfg t d n = Inr (sdkSysrootDir cfg)) \<and>
   (t \<noteq> NATIVE \<and> d = NONE \<longrightarrow>
      installDir cfg t d n = Inl (FatalError [''Unknown install dir for'', n]))"
  by (simp add: installDir_def)

theorem installDir_cases_witness:
  "installDir example_config NATIVE SDK ''LLVM'' = Inr (Path True [''out'', ''sdk'']) \<and>
   installDir example_config CHERI CHERIBSD_ROOTFS ''QtBase'' =
     Inr (Path True [''out'', ''rootfs'', ''opt'', ''cheri128'', ''qtbase'']) \<and>
   installDir example_config MIPS CHERIBSD_ROOTFS ''QtBase'' =
     Inr (Path True [''out'', ''rootfs'', ''opt'', ''mips'', ''qtbase'']) \<and>
   installDir example_config MIPS SDK ''QtBase'' = Inr (Path True [''out'', ''sdk'', ''sysroot'']) \<and>
   installDir example_config CHERI NONE ''QtBase'' =
     Inl (FatalError [''Unknown install dir for'', ''QtBase''])"
  using installDir_cases [of NATIVE example_config SDK "''LLVM''"]
    installDir_cases [of CHERI example_config CHERIBSD_ROOTFS "''QtBase''"]
    installDir_cases [of MIPS example_config CHERIBSD_ROOTFS "''QtBase''"]
    installDir_cases [of MIPS example_config SDK "''QtBase''"]
    installDir_cases [of CHERI example_config NONE "''QtBase''"]
  by (simp add: example_config_def Path_of_def pjoin_def segs_def lower_def char_lower_def)

subsection \<open>The toolchain file of a CMake project\<close>













subsection \<open>The environment of an Autotools project\<close>

lemma set_prog_env:
  "configureEnvironment (set_prog_with_args p path args s) =
     (configureEnvironment s)(p \<mapsto> prog_with_args path args)"
  by (simp add: set_prog_with_args_def Let_def)

lemma set_prog_args:
  "configureArgs (set_prog_with_args p path args s) =
     configureArgs s @
       (if configure_supports_variables_on_cmdline s then [p @ ''='' @ prog_with_args path args]
        else [])"
  by (simp add: set_prog_with_args_def Let_def)

lemma add_env_env:
  "configureEnvironment (add_configure_env_arg a v s) =
     (if v = [] then configureEnvironment s else (configureEnvironment s)(a \<mapsto> v))"
  by (simp add: add_configure_env_arg_def Let_def)

lemma add_env_args:
  "configureArgs (add_configure_env_arg a v s) =
     configureArgs s @
       (if v \<noteq> [] \<and> configure_supports_variables_on_cmdline s then [a @ ''='' @ v] else [])"
  by (simp add: add_configure_env_arg_def Let_def)

lemma set_prog_frame:
  "compiling_for_host (set_prog_with_args p path args s) = compiling_for_host s"
  "CXX (set_prog_with_args p path args s) = CXX s"
  "default_ldflags (set_prog_with_args p path args s) = default_ldflags s"
  "CXXFLAGS (set_prog_with_args p path args s) = CXXFLAGS s"
  "LDFLAGS (set_prog_with_args p path args s) = LDFLAGS s"
  "compiler_dir (set_prog_with_args p path args s) = compiler_dir s"
  "targetTriple (set_prog_with_args p path args s) = targetTriple s"
  "linker (set_prog_with_args p path args s) = linker s"
  "configure_supports_variables_on_cmdline (set_prog_with_args p path args s) =
     configure_supports_variables_on_cmdline s"
  by (auto simp: set_prog_with_args_def Let_def compiling_for_host_def CXX_def
        default_ldflags_def compiling_for_cheri_def)

lemma add_env_frame:
  "compiling_for_host (add_configure_env_arg a v s) = compiling_for_host s"
  "compiler_dir (add_configure_env_arg a v s) = compiler_dir s"
  "targetTriple (add_configure_env_arg a v s) = targetTriple s"
  "linker (add_configure_env_arg a v s) = linker s"
  "configure_supports_variables_on_cmdline (add_configure_env_arg a v s) =
     configure_supports_variables_on_cmdline s"
  by (auto simp: add_configure_env_arg_def Let_def compiling_for_host_def)

lemma libdir_frame:
  "compiling_for_host (s\<lparr>configureArgs := a\<rparr>) = compiling_for_host s"
  "CC host (s\<lparr>configureArgs := a\<rparr>) = CC host s"
  "CXX (s\<lparr>configureArgs := a\<rparr>) = CXX s"
  "default_compiler_flags (s\<lparr>configureArgs := a\<rparr>) = default_compiler_flags s"
  "default_ldflags (s\<lparr>configureArgs := a\<rparr>) = default_ldflags s"
  by (auto simp: compiling_for_host_def compiling_for_cheri_def CC_def CXX_def
        default_compiler_flags_def default_ldflags_def targetTripleWithVersion_def)

lemma without_empty_apply:
  "without_empty env k = (case env k of None \<Rightarrow> None | Some v \<Rightarrow> nonempty v)"
  by (simp add: without_empty_def nonempty_def split: option.splits)

lemma without_empty_no_empty: "without_empty env k \<noteq> Some []"
  by (simp add: without_empty_def split: option.splits)


lemma Autotools_configure_ok:
  assumes nb: "\<not> baremetal self"
    and free: "\<forall>key \<in> {''CFLAGS'', ''CXXFLAGS'', ''CPPFLAGS'', ''LDFLAGS''}.
                 configureEnvironment self key = None"
  shows "\<exists>self'. Autotools_configure host self = (self', [SuperConfigure], None)"
  using assms by (simp add: Autotools_configure_def Let_def Mixin_configure_def)

text \<open>
  C9 (as amended): for a non-baremetal Autotools cross-compile project whose configure
  environment sets none of \<open>CFLAGS\<close>, \<open>CXXFLAGS\<close>, \<open>CPPFLAGS\<close> and \<open>LDFLAGS\<close>,
  \<open>configure\<close> returns, and its only effect outside the instance is the build system's
  \<open>configure\<close>, called last.  By then the environment holds \<open>CC\<close> and \<open>CXX\<close> (the
  compiler path, the default compiler flags and the flags of the language) and
  \<open>LDFLAGS\<close> (the linker flags and the default linker flags), each unless its value is
  empty, and no entry with an empty value.  The same variables are appended to the
  configure arguments when the configure script supports variables on its command
  line; when it does not, the arguments gain at most the \<open>--libdir\<close> option.
\<close>

theorem Autotools_configure_assembles:
  assumes nb: "\<not> baremetal self"
    and free: "\<forall>key \<in> {''CFLAGS'', ''CXXFLAGS'', ''CPPFLAGS'', ''LDFLAGS''}.
                 configureEnvironment self key = None"
  shows "\<exists>self'.
      Autotools_configure host self = (self', [SuperConfigure], None) \<and>
      configureEnvironment self' ''CC'' =
        nonempty (prog_with_args (of_opt_path (CC host self))
                    (default_compiler_flags self @ CFLAGS self)) \<and>
      configureEnvironment self' ''CXX'' =
        nonempty (prog_with_args (of_opt_path (CXX self))
                    (default_compiler_flags self @ CXXFLAGS self)) \<and>
      configureEnvironment self' ''LDFLAGS'' =
        nonempty (join '' '' (LDFLAGS self @ default_ldflags self)) \<and>
      (\<forall>k. configureEnvironment self' k \<noteq> Some []) \<and>
      (if configure_supports_variables_on_cmdline self then
         ''CC='' @ prog_with_args (of_opt_path (CC host self))
                    (default_compiler_flags self @ CFLAGS self) \<in> set (configureArgs self') \<and>
         ''CXX='' @ prog_with_args (of_opt_path (CXX self))
                    (default_compiler_flags self @ CXXFLAGS self) \<in> set (configureArgs self') \<and>
         (join '' '' (LDFLAGS self @ default_ldflags self) = [] \<or>
          ''LDFLAGS='' @ join '' '' (LDFLAGS self @ default_ldflags self)
             \<in> set (configureArgs self'))
       else
         configureArgs self' = configureArgs self @
           (if compiling_for_cheri self \<and> configure_supports_libdir self
            then [''--libdir='' @ str (installPrefix self) @ ''/libcheri''] else []))"
proof -
  define self1 where "self1 =
    (if compiling_for_cheri self \<and> configure_supports_libdir self
     then self\<lparr>configureArgs := configureArgs self @
                  [''--libdir='' @ str (installPrefix self) @ ''/libcheri'']\<rparr>
     else self)"
  have f1: "CC host self1 = CC host self" "CXX self1 = CXX self"
    "default_compiler_flags self1 = default_compiler_flags self"
    "default_ldflags self1 = default_ldflags self"
    "compiling_for_host self1 = compiling_for_host self"
    "CFLAGS self1 = CFLAGS self" "CXXFLAGS self1 = CXXFLAGS self" "LDFLAGS self1 = LDFLAGS self"
    "configureEnvironment self1 = configureEnvironment self"
    "configure_supports_variables_on_cmdline self1 = configure_supports_variables_on_cmdline self"
    "baremetal self1 = baremetal self"
    by (simp_all add: self1_def libdir_frame)
  have a1: "configureArgs self1 = configureArgs self @
           (if compiling_for_cheri self \<and> configure_supports_libdir self
            then [''--libdir='' @ str (installPrefix self) @ ''/libcheri''] else [])"
    by (simp add: self1_def)
  define cc where "cc = prog_with_args (of_opt_path (CC host self))
                    (default_compiler_flags self @ CFLAGS self)"
  define cxx where "cxx = prog_with_args (of_opt_path (CXX self))
                    (default_compiler_flags self @ CXXFLAGS self)"
  define ld where "ld = join '' '' (LDFLAGS self @ default_ldflags self)"
  define self4 where "self4 =
     add_configure_env_arg ''LDFLAGS'' ld
       (set_prog_with_args ''CXX'' (of_opt_path (CXX self)) (default_compiler_flags self @ CXXFLAGS self)
         (set_prog_with_args ''CC'' (of_opt_path (CC host self))
            (default_compiler_flags self @ CFLAGS self) self1))"
  have e4: "configureEnvironment self4 =
      (if ld = [] then (configureEnvironment self)(''CC'' \<mapsto> cc, ''CXX'' \<mapsto> cxx)
       else (configureEnvironment self)(''CC'' \<mapsto> cc, ''CXX'' \<mapsto> cxx, ''LDFLAGS'' \<mapsto> ld))"
    by (simp add: self4_def add_env_env set_prog_env f1 cc_def cxx_def)
  have a4: "configureArgs self4 = configureArgs self1 @
      (if configure_supports_variables_on_cmdline self
       then [''CC='' @ cc, ''CXX='' @ cxx] @ (if ld \<noteq> [] then [''LDFLAGS='' @ ld] else [])
       else [])"
    by (simp add: self4_def add_env_args set_prog_args set_prog_frame f1 cc_def cxx_def)
  define self5 where "self5 =
     (if \<not> compiling_for_host self4 then
        let self' = set_prog_with_args ''CPP''
                      (PPath (pjoin (compiler_dir self4) (targetTriple self4 @ ''-clang-cpp'')))
                      (default_compiler_flags self) self4
        in if str_in ''lld'' (linker self') \<and>
              exists_path host (pjoin (compiler_dir self') ''ld.lld'')
           then add_configure_env_arg ''LD'' (str (pjoin (compiler_dir self') ''ld.lld'')) self'
           else self'
      else self4)"
  have e5: "configureEnvironment self5 ''CC'' = configureEnvironment self4 ''CC''"
    "configureEnvironment self5 ''CXX'' = configureEnvironment self4 ''CXX''"
    "configureEnvironment self5 ''LDFLAGS'' = configureEnvironment self4 ''LDFLAGS''"
    by (simp_all add: self5_def Let_def add_env_env set_prog_env)
  have a5: "\<exists>more. configureArgs self5 = configureArgs self4 @ more \<and>
               (\<not> configure_supports_variables_on_cmdline self \<longrightarrow> more = [])"
    by (simp add: self5_def Let_def add_env_args set_prog_args set_prog_frame add_env_frame
          self4_def f1)
  have eq: "Autotools_configure host self =
     (self5\<lparr>configureEnvironment := without_empty (configureEnvironment self5)\<rparr>,
      [SuperConfigure], None)"
    using nb free
    unfolding Autotools_configure_def Let_def Mixin_configure_def self5_def self4_def ld_def
      self1_def [symmetric]
    by (simp add: f1 set_prog_frame)
  from free have fr: "configureEnvironment self ''LDFLAGS'' = None" by simp
  from a5 obtain more where
    m: "configureArgs self5 = configureArgs self4 @ more"
    and m0: "\<not> configure_supports_variables_on_cmdline self \<longrightarrow> more = []" by blast
  show ?thesis
    unfolding eq cc_def [symmetric] cxx_def [symmetric] ld_def [symmetric]
    using m0
    by (auto simp: without_empty_apply e5 e4 m a4 a1 fr nonempty_def split: option.splits)
qed

theorem Autotools_configure_assembles_witness:
  "\<not> baremetal example_project \<and>
   configureEnvironment example_project ''CFLAGS'' = None \<and>
   configureEnvironment example_project ''CXXFLAGS'' = None \<and>
   configureEnvironment example_project ''CPPFLAGS'' = None \<and>
   configureEnvironment example_project ''LDFLAGS'' = None \<and>
   (\<exists>self'.
      Autotools_configure example_host example_project = (self', [SuperConfigure], None) \<and>
      configureEnvironment self' ''LDFLAGS'' =
        Some (''-mabi=purecap -Wl,-melf64btsmip_cheri_fbsd -fuse-ld=lld -Wl,-z,notext '' @
              ''-B/out/sdk/bin --sysroot=/out/sdk/sysroot'') \<and>
      ''LDFLAGS=-mabi=purecap -Wl,-melf64btsmip_cheri_fbsd -fuse-ld=lld -Wl,-z,notext '' @
      ''-B/out/sdk/bin --sysroot=/out/sdk/sysroot'' \<in> set (configureArgs self'))"
proof -
  have h1: "\<not> baremetal example_project"
    by (simp add: example_project_def)
  have h2: "\<forall>key \<in> {''CFLAGS'', ''CXXFLAGS'', ''CPPFLAGS'', ''LDFLAGS''}.
              configureEnvironment example_project key = None"
    by (simp add: example_project_def)
  have v: "join '' '' (LDFLAGS example_project @ default_ldflags example_project) =
      ''-mabi=purecap -Wl,-melf64btsmip_cheri_fbsd -fuse-ld=lld -Wl,-z,notext '' @
      ''-B/out/sdk/bin --sysroot=/out/sdk/sysroot''"
    by code_simp
  have s: "configure_supports_variables_on_cmdline example_project"
    by (simp add: example_project_def)
  from Autotools_configure_assembles [OF h1 h2, of example_host] obtain self' where
    r: "Autotools_configure example_host example_project = (self', [SuperConfigure], None)"
    and l: "configureEnvironment self' ''LDFLAGS'' =
        nonempty (join '' '' (LDFLAGS example_project @ default_ldflags example_project))"
    and a: "join '' '' (LDFLAGS example_project @ default_ldflags example_project) = [] \<or>
          ''LDFLAGS='' @ join '' '' (LDFLAGS example_project @ default_ldflags example_project)
             \<in> set (configureArgs self')"
    using s by auto
  from l a have "configureEnvironment self' ''LDFLAGS'' =
        Some (''-mabi=purecap -Wl,-melf64btsmip_cheri_fbsd -fuse-ld=lld -Wl,-z,notext '' @
              ''-B/out/sdk/bin --sysroot=/out/sdk/sysroot'')"
    and "''LDFLAGS=-mabi=purecap -Wl,-melf64btsmip_cheri_fbsd -fuse-ld=lld -Wl,-z,notext '' @
      ''-B/out/sdk/bin --sysroot=/out/sdk/sysroot'' \<in> set (configureArgs self')"
    unfolding v by (simp_all add: nonempty_def)
  with r h1 h2 show ?thesis by simp
qed

theorem Autotools_configure_counterexample:
  "snd (snd (Autotools_configure example_host no_cmdline_vars_project)) = None \<and>
   configureArgs (fst (Autotools_configure example_host no_cmdline_vars_project)) =
     [''--libdir=/opt/cheri128/libexpat/libcheri'']"
  by code_simp

subsection \<open>The install step of the FETT configuration\<close>

lemma nginx_bits_append: "nginx_bits s np m = m @ nginx_bits s np []"
  by (simp add: nginx_bits_def Let_def add_file_def add_dir_def)

lemma sshd_bits_append: "sshd_bits s sp m = m @ sshd_bits s sp []"
  by (simp add: sshd_bits_def Let_def add_file_def)

lemma install_success:
  assumes "\<not> getenv_true world ''_TEST_SKIP_METALOG''"
    and "manifests world (METALOG self) = Some es"
    and "relative_to_root (nginx_installPrefix self) = Inr np"
    and "relative_to_root (openssh_installPrefix self) = Inr sp"
  shows "install self world =
     (self\<lparr>mtree := mtree self @ es @ nginx_bits (sourceDir self) np [] @
                       sshd_bits (sourceDir self) sp []\<rparr>,
      world\<lparr>manifests := (manifests world)(METALOG self \<mapsto>
                mtree self @ es @ nginx_bits (sourceDir self) np [] @
                sshd_bits (sourceDir self) sp [])\<rparr>,
      None)"
proof -
  have "sshd_bits (sourceDir self) sp (nginx_bits (sourceDir self) np (mtree self @ es)) =
        mtree self @ es @ nginx_bits (sourceDir self) np [] @ sshd_bits (sourceDir self) sp []"
    using sshd_bits_append [of "sourceDir self" sp "nginx_bits (sourceDir self) np (mtree self @ es)"]
      nginx_bits_append [of "sourceDir self" np "mtree self @ es"]
    by simp
  with assms show ?thesis
    by (simp add: install_def Let_def mtree_load_def mtree_write_def)
qed

lemma install_unchanged_world:
  assumes "getenv_true world ''_TEST_SKIP_METALOG'' \<or> manifests world (METALOG self) = None \<or>
      (\<exists>e. relative_to_root (nginx_installPrefix self) = Inl e) \<or>
      (\<exists>e. relative_to_root (openssh_installPrefix self) = Inl e)"
  shows "fst (snd (install self world)) = world"
  using assms by (auto simp: install_def Let_def split: sum.splits)

lemma fett_example_facts:
  "METALOG fett_example = Path True [''out'', ''rootfs128'', ''METALOG'']"
  "mtree fett_example = []"
  "relative_to_root (nginx_installPrefix fett_example) = Inr (Path False [''fett'', ''nginx''])"
  "relative_to_root (openssh_installPrefix fett_example) = Inr (Path False [''fett''])"
  by (simp_all add: fett_example_def BuildFettConfig_init_def relative_to_root_def Path_of_def
        pjoin_def segs_def)

lemma fett_bits_length:
  "length (nginx_bits s np []) = 11" "length (sshd_bits s sp []) = 5"
  by (simp_all add: nginx_bits_def sshd_bits_def Let_def add_file_def add_dir_def)

text \<open>
  C5: \<open>BuildFettConfig.install\<close> only adds to the manifests.  Whatever the outcome, every
  manifest file keeps the entries it had, in their order; and when the method runs to its
  end (the variable \<open>_TEST_SKIP_METALOG\<close> is not set to a non-empty value, the \<open>METALOG\<close>
  file exists and both install prefixes are absolute), the \<open>METALOG\<close> file holds the
  entries of the instance's manifest, those it had before, and the file, directory and
  symbolic-link entries of nginx and sshd, in this order.
\<close>

theorem install_additive:
  "case install self world of
     (self', world', e) \<Rightarrow>
       (\<forall>p es. manifests world p = Some es \<longrightarrow>
          (\<exists>before added. manifests world' p = Some (before @ es @ added))) \<and>
       (\<forall>es np sp.
          \<not> getenv_true world ''_TEST_SKIP_METALOG'' \<and>
          manifests world (METALOG self) = Some es \<and>
          relative_to_root (nginx_installPrefix self) = Inr np \<and>
          relative_to_root (openssh_installPrefix self) = Inr sp \<longrightarrow>
          e = None \<and>
          manifests world' (METALOG self) =
            Some (mtree self @ es @ nginx_bits (sourceDir self) np [] @
                  sshd_bits (sourceDir self) sp []))"
proof (cases "\<not> getenv_true world ''_TEST_SKIP_METALOG'' \<and>
    manifests world (METALOG self) \<noteq> None \<and>
    (\<exists>np. relative_to_root (nginx_installPrefix self) = Inr np) \<and>
    (\<exists>sp. relative_to_root (openssh_installPrefix self) = Inr sp)")
  case True
  then obtain es np sp where
    h: "\<not> getenv_true world ''_TEST_SKIP_METALOG''"
       "manifests world (METALOG self) = Some es"
       "relative_to_root (nginx_installPrefix self) = Inr np"
       "relative_to_root (openssh_installPrefix self) = Inr sp" by auto
  have "\<exists>before added. ((manifests world)(METALOG self \<mapsto>
            mtree self @ es @ nginx_bits (sourceDir self) np [] @
            sshd_bits (sourceDir self) sp [])) p = Some (before @ es' @ added)"
    if "manifests world p = Some es'" for p es'
  proof (cases "p = METALOG self")
    case True
    with that h have "es' = es" by simp
    with True show ?thesis by auto
  next
    case False
    with that have "((manifests world)(METALOG self \<mapsto>
            mtree self @ es @ nginx_bits (sourceDir self) np [] @
            sshd_bits (sourceDir self) sp [])) p = Some ([] @ es' @ [])" by simp
    then show ?thesis by blast
  qed
  with h show ?thesis
    by (simp add: install_success [OF h])
next
  case False
  then have u: "getenv_true world ''_TEST_SKIP_METALOG'' \<or> manifests world (METALOG self) = None \<or>
      (\<exists>e. relative_to_root (nginx_installPrefix self) = Inl e) \<or>
      (\<exists>e. relative_to_root (openssh_installPrefix self) = Inl e)"
    by (metis sum.exhaust)
  have w: "fst (snd (install self world)) = world"
    using install_unchanged_world [OF u] .
  have pres: "\<exists>before added. manifests world p = Some (before @ es @ added)"
    if "manifests world p = Some es" for p es
    using that by (metis append_Nil append_Nil2)
  show ?thesis
  proof (cases "install self world")
    case (fields self' world' e)
    with w have "world' = world" by simp
    with fields False pres show ?thesis by auto
  qed
qed


theorem install_additive_witness:
  "\<exists>added.
     manifests (fst (snd (install fett_example fett_world)))
       (Path True [''out'', ''rootfs128'', ''METALOG'']) =
       Some (DirEntry ''.'' (Some ''root'') (Some ''wheel'') # added) \<and>
     length added = 16"
proof -
  have g: "\<not> getenv_true fett_world ''_TEST_SKIP_METALOG''"
    by (simp add: getenv_true_def fett_world_def)
  have m: "manifests fett_world (METALOG fett_example) =
      Some [DirEntry ''.'' (Some ''root'') (Some ''wheel'')]"
    by (simp add: fett_example_facts fett_world_def Path_of_def segs_def)
  show ?thesis
    using install_additive [where self = fett_example and world = fett_world] g m
    by (cases "install fett_example fett_world")
       (auto simp: fett_example_facts fett_bits_length)
qed

text \<open>
  C10 (as amended): when \<open>_TEST_SKIP_METALOG\<close> is set to a non-empty value, \<open>install\<close>
  returns at once and changes nothing; when it is unset or empty and the \<open>METALOG\<close> file
  does not exist, \<open>install\<close> reports the fatal error and changes nothing; and \<open>install\<close>
  changes a manifest file or the manifest of the instance only when the variable is
  unset or empty and the \<open>METALOG\<close> file exists.
\<close>

theorem install_preconditions:
  "(\<forall>v. environ world ''_TEST_SKIP_METALOG'' = Some v \<and> v \<noteq> [] \<longrightarrow>
      install self world = (self, world, None)) \<and>
   ((environ world ''_TEST_SKIP_METALOG'' = None \<or>
     environ world ''_TEST_SKIP_METALOG'' = Some []) \<and>
    manifests world (METALOG self) = None \<longrightarrow>
      install self world =
        (self, world,
         Some (FatalError [''METALOG '' @ str (METALOG self) @ ''does not exist'']))) \<and>
   (fst (snd (install self world)) \<noteq> world \<or> mtree (fst (install self world)) \<noteq> mtree self \<longrightarrow>
      (environ world ''_TEST_SKIP_METALOG'' = None \<or>
       environ world ''_TEST_SKIP_METALOG'' = Some []) \<and>
      manifests world (METALOG self) \<noteq> None)"
  by (auto simp: install_def getenv_true_def Let_def split: option.splits sum.splits)

theorem install_preconditions_witness:
  "install fett_example fett_world_skip = (fett_example, fett_world_skip, None) \<and>
   install fett_example fett_world_no_metalog =
     (fett_example, fett_world_no_metalog,
      Some (FatalError [''METALOG /out/rootfs128/METALOGdoes not exist'']))"
proof -
  have a: "environ fett_world_skip ''_TEST_SKIP_METALOG'' = Some ''1'' \<and> ''1'' \<noteq> []"
    by (simp add: fett_world_skip_def)
  have b: "(environ fett_world_no_metalog ''_TEST_SKIP_METALOG'' = None \<or>
            environ fett_world_no_metalog ''_TEST_SKIP_METALOG'' = Some []) \<and>
           manifests fett_world_no_metalog (METALOG fett_example) = None"
    by (simp add: fett_world_no_metalog_def fett_world_def)
  have s: "str (METALOG fett_example) = ''/out/rootfs128/METALOG''"
    by (simp add: fett_example_facts str_def)
  show ?thesis
    using install_preconditions [where self = fett_example and world = fett_world_skip]
      install_preconditions [where self = fett_example and world = fett_world_no_metalog] a b s
    by simp
qed

theorem install_empty_variable_counterexample:
  "environ fett_world_empty_var ''_TEST_SKIP_METALOG'' = Some [] \<and>
   manifests (fst (snd (install fett_example fett_world_empty_var))) (METALOG fett_example) \<noteq>
   manifests fett_world_empty_var (METALOG fett_example)"
proof -
  have g: "\<not> getenv_true fett_world_empty_var ''_TEST_SKIP_METALOG''"
    by (simp add: getenv_true_def fett_world_empty_var_def)
  have m: "manifests fett_world_empty_var (METALOG fett_example) =
      Some [DirEntry ''.'' (Some ''root'') (Some ''wheel'')]"
    by (simp add: fett_example_facts fett_world_empty_var_def fett_world_def Path_of_def segs_def)
  have "length (the (manifests (fst (snd (install fett_example fett_world_empty_var)))
          (METALOG fett_example))) = 17"
    by (simp add: install_success [OF g m fett_example_facts(3) fett_example_facts(4)]
          fett_bits_length fett_example_facts(2))
  with m show ?thesis
    by (auto simp: fett_world_empty_var_def)
qed

end
